theory Spec2Isabelle
  imports Complex_Main
begin

section \<open>The finance models of the ERP (finance/models.py)\<close>

text \<open>
  The finance module declares Django models and three pieces of behaviour:
  \<^verbatim>\<open>JournalEntry.is_balanced\<close>, \<^verbatim>\<open>Invoice.is_overdue\<close> and the two
  \<^verbatim>\<open>calculate_totals\<close> methods of \<^verbatim>\<open>Invoice\<close> and \<^verbatim>\<open>InvoiceLine\<close>.

  Modelling decisions.
  \<^item> A \<^verbatim>\<open>DecimalField\<close> holds a Python \<^verbatim>\<open>Decimal\<close>; it is modelled by its exact
    numeric value, a rational number. \<^verbatim>\<open>Decimal\<close> equality is numeric, so equality
    of rationals is the program's \<^verbatim>\<open>==\<close>. Arithmetic is exact here; Python's decimal
    context would round a result that needs more than its 28 significant digits.
  \<^item> A \<^verbatim>\<open>UUIDField\<close> and a foreign key are row identifiers (natural numbers); a
    nullable foreign key is an \<open>option\<close>.
  \<^item> A \<^verbatim>\<open>DateField\<close> is a day number, a \<^verbatim>\<open>DateTimeField\<close> a day number with the
    microseconds elapsed in that day; \<^verbatim>\<open>.date()\<close> is the first component. The
    automatic timestamps are \<^verbatim>\<open>None\<close> until the first save.
  \<^item> A \<^verbatim>\<open>CharField\<close> with \<^verbatim>\<open>choices\<close> is a string: the choices are a table of
    the model class, and the methods compare the stored string.
  \<^item> The database is a record of tables named after each model's \<^verbatim>\<open>db_table\<close>; a
    table is the list of its rows. \<^verbatim>\<open>save()\<close> writes the instance's row (update by
    primary key, insert when the key is new) and sets the \<^verbatim>\<open>auto_now\<close> and
    \<^verbatim>\<open>auto_now_add\<close> columns the model declares; the current time is an argument.
    The row holds the values the instance hands to \<^verbatim>\<open>save()\<close>: how a storage
    backend coerces a value to its column is not part of the module.
\<close>

type_synonym decimal = rat
type_synonym uuid = nat
type_synonym date = int
type_synonym datetime = "date \<times> nat"

definition datetime_date :: "datetime \<Rightarrow> date" where
  "datetime_date dt = fst dt"

subsection \<open>Rows\<close>

record InvoiceLine =
  id :: uuid
  invoice :: uuid
  line_number :: int
  product :: "uuid option"
  service :: "uuid option"
  description :: string
  quantity :: decimal
  unit_price :: decimal
  discount_percent :: decimal
  line_total :: decimal
  tax_rate :: decimal
  tax_amount :: decimal
  revenue_account :: uuid

record Invoice =
  id :: uuid
  company :: uuid
  invoice_type :: string
  invoice_number :: string
  invoice_date :: date
  due_date :: date
  customer :: "uuid option"
  supplier :: "uuid option"
  subtotal :: decimal
  tax_amount :: decimal
  discount_amount :: decimal
  total_amount :: decimal
  paid_amount :: decimal
  balance_due :: decimal
  currency :: string
  exchange_rate :: decimal
  status :: string
  payment_terms :: string
  invoice_notes :: string
  created_by :: uuid
  created_at :: "datetime option"
  updated_at :: "datetime option"

record JournalEntry =
  id :: uuid
  company :: uuid
  entry_number :: string
  entry_date :: date
  entry_type :: string
  description :: string
  reference_number :: string
  reference_model :: string
  reference_id :: "uuid option"
  status :: string
  total_debit :: decimal
  total_credit :: decimal
  currency :: string
  created_by :: uuid
  posted_by :: "uuid option"
  posted_at :: "datetime option"
  created_at :: "datetime option"
  updated_at :: "datetime option"

record JournalEntryLine =
  id :: uuid
  journal_entry :: uuid
  line_number :: int
  account :: uuid
  debit :: decimal
  credit :: decimal
  description :: string
  reference :: string
  tracking_category :: string
  tracking_value :: string

record Payment =
  id :: uuid
  company :: uuid
  payment_number :: string
  payment_date :: date
  payment_method :: string
  payment_reference :: string
  amount :: decimal
  currency :: string
  exchange_rate :: decimal
  customer :: "uuid option"
  supplier :: "uuid option"
  bank_account :: "uuid option"
  status :: string
  payment_notes :: string
  created_by :: uuid
  created_at :: "datetime option"
  updated_at :: "datetime option"

record PaymentAllocation =
  id :: uuid
  payment :: uuid
  invoice :: uuid
  allocated_amount :: decimal
  allocated_at :: "datetime option"

text \<open>The tables, by their \<^verbatim>\<open>db_table\<close> names.\<close>

record database =
  journal_entries :: "JournalEntry list"
  journal_entry_lines :: "JournalEntryLine list"
  invoices :: "Invoice list"
  invoice_lines :: "InvoiceLine list"
  payments :: "Payment list"
  payment_allocations :: "PaymentAllocation list"

subsection \<open>New instances\<close>

text \<open>
  A new instance takes the fields that have no default as arguments; the others get the
  default their field declares (\<^verbatim>\<open>default=0\<close>, \<^verbatim>\<open>default='USD'\<close>, \<^verbatim>\<open>default='draft'\<close>,
  an empty string for a \<^verbatim>\<open>blank=True\<close> text, \<^verbatim>\<open>None\<close> for a nullable key).
\<close>

definition empty_database :: database where
  "empty_database =
     \<lparr>journal_entries = [], journal_entry_lines = [], invoices = [], invoice_lines = [],
      payments = [], payment_allocations = []\<rparr>"

definition new_JournalEntry ::
    "uuid \<Rightarrow> uuid \<Rightarrow> string \<Rightarrow> date \<Rightarrow> string \<Rightarrow> string \<Rightarrow> uuid \<Rightarrow> JournalEntry" where
  "new_JournalEntry pk company_id number day type descr user =
     \<lparr>JournalEntry.id = pk, company = company_id, entry_number = number, entry_date = day,
      entry_type = type, description = descr, reference_number = [], reference_model = [],
      reference_id = None, status = ''draft'', total_debit = 0, total_credit = 0,
      currency = ''USD'', created_by = user, posted_by = None, posted_at = None,
      created_at = None, updated_at = None\<rparr>"

definition new_JournalEntryLine :: "uuid \<Rightarrow> uuid \<Rightarrow> int \<Rightarrow> uuid \<Rightarrow> JournalEntryLine" where
  "new_JournalEntryLine pk entry_id number account_id =
     \<lparr>JournalEntryLine.id = pk, journal_entry = entry_id, line_number = number,
      account = account_id, debit = 0, credit = 0, description = [], reference = [],
      tracking_category = [], tracking_value = []\<rparr>"

definition new_Invoice ::
    "uuid \<Rightarrow> uuid \<Rightarrow> string \<Rightarrow> string \<Rightarrow> date \<Rightarrow> date \<Rightarrow> uuid \<Rightarrow> Invoice" where
  "new_Invoice pk company_id type number day due user =
     \<lparr>Invoice.id = pk, company = company_id, invoice_type = type, invoice_number = number,
      invoice_date = day, due_date = due, customer = None, supplier = None, subtotal = 0,
      tax_amount = 0, discount_amount = 0, total_amount = 0, paid_amount = 0,
      balance_due = 0, currency = ''USD'', exchange_rate = 1, status = ''draft'',
      payment_terms = [], invoice_notes = [], created_by = user, created_at = None,
      updated_at = None\<rparr>"

definition new_InvoiceLine :: "uuid \<Rightarrow> uuid \<Rightarrow> int \<Rightarrow> string \<Rightarrow> uuid \<Rightarrow> InvoiceLine" where
  "new_InvoiceLine pk invoice_id number descr account_id =
     \<lparr>InvoiceLine.id = pk, invoice = invoice_id, line_number = number, product = None,
      service = None, description = descr, quantity = 1, unit_price = 0,
      discount_percent = 0, line_total = 0, tax_rate = 0, tax_amount = 0,
      revenue_account = account_id\<rparr>"

definition new_Payment ::
    "uuid \<Rightarrow> uuid \<Rightarrow> string \<Rightarrow> date \<Rightarrow> string \<Rightarrow> decimal \<Rightarrow> uuid \<Rightarrow> Payment" where
  "new_Payment pk company_id number day method amt user =
     \<lparr>Payment.id = pk, company = company_id, payment_number = number, payment_date = day,
      payment_method = method, payment_reference = [], amount = amt, currency = ''USD'',
      exchange_rate = 1, customer = None, supplier = None, bank_account = None,
      status = ''pending'', payment_notes = [], created_by = user, created_at = None,
      updated_at = None\<rparr>"

definition new_PaymentAllocation :: "uuid \<Rightarrow> uuid \<Rightarrow> uuid \<Rightarrow> decimal \<Rightarrow> PaymentAllocation" where
  "new_PaymentAllocation pk payment_id invoice_id amt =
     \<lparr>PaymentAllocation.id = pk, payment = payment_id, invoice = invoice_id,
      allocated_amount = amt, allocated_at = None\<rparr>"

text \<open>The choices of \<^verbatim>\<open>Invoice.status\<close>: stored value and label.\<close>

definition INVOICE_STATUS :: "(string \<times> string) list" where
  "INVOICE_STATUS =
     [(''draft'', ''Draft''),
      (''sent'', ''Sent''),
      (''partially_paid'', ''Partially Paid''),
      (''paid'', ''Paid''),
      (''cancelled'', ''Cancelled''),
      (''overdue'', ''Overdue'')]"

subsection \<open>Saving a row\<close>

text \<open>
  \<^verbatim>\<open>Model.save()\<close>: the row with the instance's primary key is replaced, or the row
  is appended when no row has that key.
\<close>

definition pk_exists :: "('r \<Rightarrow> uuid) \<Rightarrow> 'r list \<Rightarrow> uuid \<Rightarrow> bool" where
  "pk_exists pk rows k = (k \<in> set (map pk rows))"

definition upsert :: "('r \<Rightarrow> uuid) \<Rightarrow> 'r \<Rightarrow> 'r list \<Rightarrow> 'r list" where
  "upsert pk x rows =
     (if pk_exists pk rows (pk x)
      then map (\<lambda>r. if pk r = pk x then x else r) rows
      else rows @ [x])"

definition get_row :: "('r \<Rightarrow> uuid) \<Rightarrow> 'r list \<Rightarrow> uuid \<Rightarrow> 'r option" where
  "get_row pk rows k = find (\<lambda>r. pk r = k) rows"

text \<open>\<^verbatim>\<open>InvoiceLine\<close> declares no automatic column.\<close>

definition InvoiceLine_save :: "database \<Rightarrow> InvoiceLine \<Rightarrow> database \<times> InvoiceLine" where
  "InvoiceLine_save db self =
     (db\<lparr>invoice_lines := upsert InvoiceLine.id self (invoice_lines db)\<rparr>, self)"

text \<open>
  \<^verbatim>\<open>Invoice\<close> declares \<^verbatim>\<open>created_at\<close> with \<^verbatim>\<open>auto_now_add=True\<close> (set when the row
  is inserted) and \<^verbatim>\<open>updated_at\<close> with \<^verbatim>\<open>auto_now=True\<close> (set at every save).
\<close>

definition Invoice_save :: "datetime \<Rightarrow> database \<Rightarrow> Invoice \<Rightarrow> database \<times> Invoice" where
  "Invoice_save now db self =
     (let add = \<not> pk_exists Invoice.id (invoices db) (Invoice.id self);
          self1 = (if add then self\<lparr>Invoice.created_at := Some now\<rparr> else self);
          self2 = self1\<lparr>Invoice.updated_at := Some now\<rparr>
      in (db\<lparr>invoices := upsert Invoice.id self2 (invoices db)\<rparr>, self2))"

subsection \<open>InvoiceLine.calculate_totals\<close>

text \<open>
  \<^verbatim>\<open>
  def calculate_totals(self):
      discount_factor = 1 - (self.discount_percent / 100)
      subtotal = self.quantity * self.unit_price * discount_factor
      self.line_total = subtotal
      self.tax_amount = subtotal * (self.tax_rate / 100)
      self.save()
  \<close>
\<close>

definition InvoiceLine_calculate_totals ::
    "database \<Rightarrow> InvoiceLine \<Rightarrow> database \<times> InvoiceLine" where
  "InvoiceLine_calculate_totals db self =
     (let discount_factor = 1 - (discount_percent self / 100);
          subtotal = quantity self * unit_price self * discount_factor;
          self1 = self\<lparr>line_total := subtotal\<rparr>;
          self2 = self1\<lparr>InvoiceLine.tax_amount := subtotal * (tax_rate self1 / 100)\<rparr>
      in InvoiceLine_save db self2)"

subsection \<open>Invoice.calculate_totals\<close>

text \<open>
  \<^verbatim>\<open>line_items\<close> is the reverse relation of \<^verbatim>\<open>InvoiceLine.invoice\<close>: the stored lines
  whose foreign key is this invoice. \<^verbatim>\<open>aggregate(total=Sum(f))['total']\<close> is the sum of
  column \<^verbatim>\<open>f\<close> over them, and \<^verbatim>\<open>None\<close> over no row; \<^verbatim>\<open>x or Decimal('0')\<close> replaces
  \<^verbatim>\<open>None\<close> and a zero by \<^verbatim>\<open>Decimal('0')\<close>.
\<close>

definition line_items :: "database \<Rightarrow> Invoice \<Rightarrow> InvoiceLine list" where
  "line_items db self = filter (\<lambda>l. InvoiceLine.invoice l = Invoice.id self) (invoice_lines db)"

definition aggregate_Sum :: "('r \<Rightarrow> decimal) \<Rightarrow> 'r list \<Rightarrow> decimal option" where
  "aggregate_Sum f rows = (case rows of [] \<Rightarrow> None | _ \<Rightarrow> Some (sum_list (map f rows)))"

definition or_Decimal :: "decimal option \<Rightarrow> decimal \<Rightarrow> decimal" where
  "or_Decimal x d = (case x of None \<Rightarrow> d | Some v \<Rightarrow> if v = 0 then d else v)"

text \<open>
  \<^verbatim>\<open>
  def calculate_totals(self):
      line_items = self.line_items.all()
      self.subtotal = line_items.aggregate(total=Sum('line_total'))['total'] or Decimal('0')
      self.tax_amount = line_items.aggregate(total=Sum('tax_amount'))['total'] or Decimal('0')
      self.total_amount = self.subtotal + self.tax_amount - self.discount_amount
      self.balance_due = self.total_amount - self.paid_amount
      self.save()
  \<close>
\<close>

definition Invoice_calculate_totals ::
    "datetime \<Rightarrow> database \<Rightarrow> Invoice \<Rightarrow> database \<times> Invoice" where
  "Invoice_calculate_totals now db self =
     (let items = line_items db self;
          self1 = self\<lparr>subtotal := or_Decimal (aggregate_Sum line_total items) 0\<rparr>;
          self2 = self1\<lparr>Invoice.tax_amount :=
                    or_Decimal (aggregate_Sum InvoiceLine.tax_amount items) 0\<rparr>;
          self3 = self2\<lparr>total_amount :=
                    subtotal self2 + Invoice.tax_amount self2 - discount_amount self2\<rparr>;
          self4 = self3\<lparr>balance_due := total_amount self3 - paid_amount self3\<rparr>
      in Invoice_save now db self4)"

subsection \<open>Invoice.is_overdue\<close>

text \<open>
  \<^verbatim>\<open>
  @property
  def is_overdue(self):
      from django.utils.timezone import now
      return self.due_date < now().date() and self.status not in ['paid', 'cancelled']
  \<close>
  The value of \<^verbatim>\<open>now()\<close> at the read is the first argument.
\<close>

definition is_overdue :: "datetime \<Rightarrow> Invoice \<Rightarrow> bool" where
  "is_overdue now self =
     (due_date self < datetime_date now \<and> Invoice.status self \<notin> set [''paid'', ''cancelled''])"

subsection \<open>JournalEntry.is_balanced\<close>

text \<open>
  \<^verbatim>\<open>
  @property
  def is_balanced(self):
      return self.total_debit == self.total_credit
  \<close>
  \<^verbatim>\<open>lines\<close> is the reverse relation of \<^verbatim>\<open>JournalEntryLine.journal_entry\<close>.
\<close>

definition is_balanced :: "JournalEntry \<Rightarrow> bool" where
  "is_balanced self = (total_debit self = total_credit self)"

definition JournalEntry_lines :: "database \<Rightarrow> JournalEntry \<Rightarrow> JournalEntryLine list" where
  "JournalEntry_lines db self =
     filter (\<lambda>l. journal_entry l = JournalEntry.id self) (journal_entry_lines db)"

subsection \<open>Payment allocations\<close>

text \<open>
  \<^verbatim>\<open>PaymentAllocation\<close> has no method of its own. Its reverse relations are
  \<^verbatim>\<open>Payment.allocations\<close> and \<^verbatim>\<open>Invoice.payment_allocations\<close>; its \<^verbatim>\<open>Meta\<close> declares
  \<^verbatim>\<open>unique_together = ['payment', 'invoice']\<close>, and \<^verbatim>\<open>allocated_at\<close> is
  \<^verbatim>\<open>auto_now_add\<close>. An allocation is created by saving an instance: the save is
  refused with an integrity error when another row has the same payment and invoice.
\<close>

datatype error = IntegrityError

definition Payment_allocations :: "database \<Rightarrow> uuid \<Rightarrow> PaymentAllocation list" where
  "Payment_allocations db payment_id =
     filter (\<lambda>a. payment a = payment_id) (payment_allocations db)"

definition Invoice_payment_allocations :: "database \<Rightarrow> uuid \<Rightarrow> PaymentAllocation list" where
  "Invoice_payment_allocations db invoice_id =
     filter (\<lambda>a. PaymentAllocation.invoice a = invoice_id) (payment_allocations db)"

definition allocated_sum :: "PaymentAllocation list \<Rightarrow> decimal" where
  "allocated_sum allocs = sum_list (map allocated_amount allocs)"

definition PaymentAllocation_save ::
    "datetime \<Rightarrow> database \<Rightarrow> PaymentAllocation \<Rightarrow> error + database \<times> PaymentAllocation" where
  "PaymentAllocation_save now db self =
     (let add = \<not> pk_exists PaymentAllocation.id (payment_allocations db) (PaymentAllocation.id self);
          self1 = (if add then self\<lparr>allocated_at := Some now\<rparr> else self)
      in if list_ex (\<lambda>r. PaymentAllocation.id r \<noteq> PaymentAllocation.id self1
                        \<and> payment r = payment self1
                        \<and> PaymentAllocation.invoice r = PaymentAllocation.invoice self1)
              (payment_allocations db)
         then Inl IntegrityError
         else Inr (db\<lparr>payment_allocations :=
                      upsert PaymentAllocation.id self1 (payment_allocations db)\<rparr>, self1))"

subsection \<open>The rounding policy of the specification\<close>



section \<open>Helper facts\<close>

lemma or_Decimal_aggregate_Sum: "or_Decimal (aggregate_Sum f rows) 0 = sum_list (map f rows)"
  by (cases rows) (simp_all add: or_Decimal_def aggregate_Sum_def)

lemma get_row_upsert: "get_row pk (upsert pk x rows) (pk x) = Some x"
proof (cases "pk_exists pk rows (pk x)")
  case True
  then have "get_row pk (map (\<lambda>r. if pk r = pk x then x else r) rows) (pk x) = Some x"
    unfolding pk_exists_def get_row_def
    by (induction rows) auto
  with True show ?thesis by (simp add: upsert_def)
next
  case False
  then have "find (\<lambda>r. pk r = pk x) (rows @ [x]) = Some x"
    unfolding pk_exists_def by (induction rows) auto
  with False show ?thesis
    by (simp add: upsert_def get_row_def)
qed

lemma pk_exists_upsert: "pk_exists pk (upsert pk x rows) (pk x)"
  by (auto simp: pk_exists_def upsert_def)

lemma upsert_idem: "upsert pk x (upsert pk x rows) = upsert pk x rows"
proof (cases "pk_exists pk rows (pk x)")
  case True
  then have "pk_exists pk (map (\<lambda>r. if pk r = pk x then x else r) rows) (pk x)"
    by (auto simp: pk_exists_def)
  with True show ?thesis by (simp add: upsert_def comp_def cong: map_cong)
next
  case False
  then have "map (\<lambda>r. if pk r = pk x then x else r) rows = rows"
    unfolding pk_exists_def by (induction rows) auto
  with False show ?thesis by (simp add: upsert_def pk_exists_def)
qed

lemma find_map_replace:
  "k \<noteq> pk x \<Longrightarrow> find (\<lambda>r. pk r = k) (map (\<lambda>r. if pk r = pk x then x else r) rows)
     = find (\<lambda>r. pk r = k) rows"
  by (induction rows) auto

lemma find_snoc_other:
  "k \<noteq> pk x \<Longrightarrow> find (\<lambda>r. pk r = k) (rows @ [x]) = find (\<lambda>r. pk r = k) rows"
  by (induction rows) auto

lemma get_row_upsert_other: "k \<noteq> pk x \<Longrightarrow> get_row pk (upsert pk x rows) k = get_row pk rows k"
  by (simp add: get_row_def upsert_def find_map_replace find_snoc_other)


lemma Invoice_calculate_totals_instance:
  "snd (Invoice_calculate_totals now db self) =
     self\<lparr>subtotal := sum_list (map line_total (line_items db self)),
          Invoice.tax_amount := sum_list (map InvoiceLine.tax_amount (line_items db self)),
          total_amount := sum_list (map line_total (line_items db self))
                        + sum_list (map InvoiceLine.tax_amount (line_items db self))
                        - discount_amount self,
          balance_due := sum_list (map line_total (line_items db self))
                        + sum_list (map InvoiceLine.tax_amount (line_items db self))
                        - discount_amount self - paid_amount self,
          Invoice.created_at :=
            (if pk_exists Invoice.id (invoices db) (Invoice.id self)
             then Invoice.created_at self else Some now),
          Invoice.updated_at := Some now\<rparr>"
  by (simp add: Invoice_calculate_totals_def Invoice_save_def Let_def or_Decimal_aggregate_Sum)

lemma Invoice_calculate_totals_id:
  "Invoice.id (snd (Invoice_calculate_totals now db self)) = Invoice.id self"
  by (simp add: Invoice_calculate_totals_instance)

lemma Invoice_calculate_totals_database:
  "fst (Invoice_calculate_totals now db self) =
     db\<lparr>invoices := upsert Invoice.id (snd (Invoice_calculate_totals now db self)) (invoices db)\<rparr>"
  by (simp add: Invoice_calculate_totals_def Invoice_save_def Let_def)

lemma line_items_after:
  "line_items (fst (Invoice_calculate_totals now db self)) (snd (Invoice_calculate_totals now db self))
     = line_items db self"
  by (simp add: line_items_def Invoice_calculate_totals_database Invoice_calculate_totals_id)

lemma Invoice_calculate_totals_stored:
  "get_row Invoice.id (invoices (fst (Invoice_calculate_totals now db self))) (Invoice.id self)
     = Some (snd (Invoice_calculate_totals now db self))"
  using get_row_upsert [of Invoice.id "snd (Invoice_calculate_totals now db self)" "invoices db"]
  by (simp add: Invoice_calculate_totals_database Invoice_calculate_totals_id)

lemma InvoiceLine_calculate_totals_instance:
  "snd (InvoiceLine_calculate_totals db self) =
     self\<lparr>line_total := quantity self * unit_price self * (1 - discount_percent self / 100),
          InvoiceLine.tax_amount :=
            quantity self * unit_price self * (1 - discount_percent self / 100)
            * (tax_rate self / 100)\<rparr>"
  by (simp add: InvoiceLine_calculate_totals_def InvoiceLine_save_def Let_def)

lemma InvoiceLine_calculate_totals_database:
  "fst (InvoiceLine_calculate_totals db self) =
     db\<lparr>invoice_lines := upsert InvoiceLine.id (snd (InvoiceLine_calculate_totals db self))
                              (invoice_lines db)\<rparr>"
  by (simp add: InvoiceLine_calculate_totals_def InvoiceLine_save_def Let_def)

lemma InvoiceLine_calculate_totals_again:
  "InvoiceLine_calculate_totals (fst (InvoiceLine_calculate_totals db self))
       (snd (InvoiceLine_calculate_totals db self))
     = InvoiceLine_calculate_totals db self"
proof -
  let ?r = "snd (InvoiceLine_calculate_totals db self)"
  let ?d = "fst (InvoiceLine_calculate_totals db self)"
  have inst: "snd (InvoiceLine_calculate_totals ?d ?r) = ?r"
    by (simp add: InvoiceLine_calculate_totals_instance)
  have "fst (InvoiceLine_calculate_totals ?d ?r) = ?d"
    unfolding InvoiceLine_calculate_totals_database [of ?d ?r] inst
    by (simp add: InvoiceLine_calculate_totals_database [of db self] upsert_idem)
  with inst show ?thesis
    by (simp add: prod_eq_iff)
qed

lemma Invoice_calculate_totals_again_instance:
  "snd (Invoice_calculate_totals now2 (fst (Invoice_calculate_totals now1 db self))
          (snd (Invoice_calculate_totals now1 db self)))
     = (snd (Invoice_calculate_totals now1 db self))\<lparr>Invoice.updated_at := Some now2\<rparr>"
proof -
  let ?r = "snd (Invoice_calculate_totals now1 db self)"
  let ?d = "fst (Invoice_calculate_totals now1 db self)"
  have stored: "pk_exists Invoice.id (invoices ?d) (Invoice.id ?r)"
    by (simp add: Invoice_calculate_totals_database pk_exists_upsert)
  have items: "line_items ?d ?r = line_items db self"
    by (rule line_items_after)
  show ?thesis
    unfolding Invoice_calculate_totals_instance [of now2 ?d ?r] items
    using stored by (simp add: Invoice_calculate_totals_instance [of now1 db self])
qed

lemma Invoice_calculate_totals_again:
  "Invoice_calculate_totals now (fst (Invoice_calculate_totals now db self))
       (snd (Invoice_calculate_totals now db self))
     = Invoice_calculate_totals now db self"
proof -
  let ?r = "snd (Invoice_calculate_totals now db self)"
  let ?d = "fst (Invoice_calculate_totals now db self)"
  have "snd (Invoice_calculate_totals now ?d ?r) = ?r\<lparr>Invoice.updated_at := Some now\<rparr>"
    by (rule Invoice_calculate_totals_again_instance)
  also have "\<dots> = ?r"
    by (simp add: Invoice_calculate_totals_instance)
  finally have inst: "snd (Invoice_calculate_totals now ?d ?r) = ?r" .
  have "fst (Invoice_calculate_totals now ?d ?r) = ?d"
    unfolding Invoice_calculate_totals_database [of now ?d ?r] inst
    by (simp add: Invoice_calculate_totals_database [of now db self] upsert_idem)
  with inst show ?thesis
    by (simp add: prod_eq_iff)
qed

lemma get_row_upsert_others:
  "\<forall>k. k \<noteq> pk x \<longrightarrow> get_row pk (upsert pk x rows) k = get_row pk rows k"
  by (simp add: get_row_upsert_other)

lemma upsert_new: "\<not> pk_exists pk rows (pk x) \<Longrightarrow> upsert pk x rows = rows @ [x]"
  by (simp add: upsert_def)

lemma PaymentAllocation_save_created:
  assumes ok: "PaymentAllocation_save now db self = Inr (db', self')"
    and new: "\<not> pk_exists PaymentAllocation.id (payment_allocations db) (PaymentAllocation.id self)"
  shows "self' = self\<lparr>allocated_at := Some now\<rparr>"
    and "db' = db\<lparr>payment_allocations := payment_allocations db @ [self']\<rparr>"
    and "\<not> list_ex (\<lambda>r. payment r = payment self
            \<and> PaymentAllocation.invoice r = PaymentAllocation.invoice self)
          (payment_allocations db)"
proof -
  from ok new show inst: "self' = self\<lparr>allocated_at := Some now\<rparr>"
    by (simp add: PaymentAllocation_save_def Let_def split: if_splits)
  from ok new have "db' = db\<lparr>payment_allocations :=
      upsert PaymentAllocation.id self' (payment_allocations db)\<rparr>"
    by (auto simp: PaymentAllocation_save_def Let_def split: if_splits)
  moreover have "PaymentAllocation.id self' = PaymentAllocation.id self"
    by (simp add: inst)
  ultimately show "db' = db\<lparr>payment_allocations := payment_allocations db @ [self']\<rparr>"
    using new by (simp add: upsert_new)
  from ok new have "\<not> list_ex (\<lambda>r. PaymentAllocation.id r \<noteq> PaymentAllocation.id self
        \<and> payment r = payment self
        \<and> PaymentAllocation.invoice r = PaymentAllocation.invoice self) (payment_allocations db)"
    by (simp add: PaymentAllocation_save_def Let_def split: if_splits)
  with new show "\<not> list_ex (\<lambda>r. payment r = payment self
        \<and> PaymentAllocation.invoice r = PaymentAllocation.invoice self) (payment_allocations db)"
    unfolding list_ex_iff pk_exists_def by (metis image_eqI set_map)
qed










section \<open>Line totals\<close>


section \<open>Invoice totals\<close>

text \<open>
  C2. For every invoice, after \<^verbatim>\<open>Invoice.calculate_totals\<close> the fields satisfy:
  subtotal is the sum of its lines' line_total, tax_amount is the sum of its lines'
  tax_amount, total_amount = subtotal + tax_amount - discount_amount, and
  balance_due = total_amount - paid_amount. The lines are those stored for the invoice,
  which the computation leaves as they were, and the stored row of the invoice is the
  instance.
\<close>

theorem Invoice_calculate_totals_fields:
  "(let (db', self') = Invoice_calculate_totals now db self in
      subtotal self' = sum_list (map line_total (line_items db' self'))
    \<and> Invoice.tax_amount self' = sum_list (map InvoiceLine.tax_amount (line_items db' self'))
    \<and> total_amount self' = subtotal self' + Invoice.tax_amount self' - discount_amount self'
    \<and> balance_due self' = total_amount self' - paid_amount self'
    \<and> line_items db' self' = line_items db self
    \<and> get_row Invoice.id (invoices db') (Invoice.id self) = Some self')"
proof -
  obtain db' self' where run: "Invoice_calculate_totals now db self = (db', self')"
    by (cases "Invoice_calculate_totals now db self")
  have inst: "self' = snd (Invoice_calculate_totals now db self)"
    and dbs: "db' = fst (Invoice_calculate_totals now db self)"
    by (simp_all add: run)
  have items: "line_items db' self' = line_items db self"
    unfolding inst dbs by (rule line_items_after)
  have stored: "get_row Invoice.id (invoices db') (Invoice.id self) = Some self'"
    unfolding inst dbs by (rule Invoice_calculate_totals_stored)
  have "subtotal self' = sum_list (map line_total (line_items db self))"
    and "Invoice.tax_amount self' = sum_list (map InvoiceLine.tax_amount (line_items db self))"
    and "total_amount self' = subtotal self' + Invoice.tax_amount self' - discount_amount self'"
    and "balance_due self' = total_amount self' - paid_amount self'"
    unfolding inst by (simp_all add: Invoice_calculate_totals_instance)
  with items stored show ?thesis
    by (simp add: run)
qed

section \<open>Overdue invoices\<close>

text \<open>
  C8. For every invoice and every time of the read, \<^verbatim>\<open>is_overdue\<close> is true if and
  only if the due date is strictly before the current date and the status is neither
  paid nor cancelled.
\<close>

theorem is_overdue_iff:
  "is_overdue now self \<longleftrightarrow>
     due_date self < datetime_date now \<and> Invoice.status self \<noteq> ''paid'' \<and> Invoice.status self \<noteq> ''cancelled''"
  by (simp add: is_overdue_def)


section \<open>Idempotence\<close>

text \<open>
  C6. Computing invoice totals is idempotent: a second call of
  \<^verbatim>\<open>Invoice.calculate_totals\<close>, on the lines, discount_amount and paid_amount the first
  call left, gives the same subtotal, tax_amount, total_amount and balance_due; the
  instance differs from the first result in nothing but the time of the save, and a
  second call at the same time leaves instance and database as they are. The same
  holds for \<^verbatim>\<open>InvoiceLine.calculate_totals\<close>.
\<close>

theorem calculate_totals_idempotent:
  "(let (db1, self1) = Invoice_calculate_totals now1 db self;
        (db2, self2) = Invoice_calculate_totals now2 db1 self1 in
      subtotal self2 = subtotal self1
    \<and> Invoice.tax_amount self2 = Invoice.tax_amount self1
    \<and> total_amount self2 = total_amount self1
    \<and> balance_due self2 = balance_due self1
    \<and> self2 = self1\<lparr>Invoice.updated_at := Some now2\<rparr>
    \<and> get_row Invoice.id (invoices db2) (Invoice.id self) = Some self2
    \<and> line_items db2 self2 = line_items db self
    \<and> Invoice_calculate_totals now1 db1 self1 = (db1, self1))
 \<and> (let (db1, line1) = InvoiceLine_calculate_totals db line in
      InvoiceLine_calculate_totals db1 line1 = (db1, line1))"
proof -
  obtain db1 self1 where run1: "Invoice_calculate_totals now1 db self = (db1, self1)"
    by (cases "Invoice_calculate_totals now1 db self")
  obtain db2 self2 where run2: "Invoice_calculate_totals now2 db1 self1 = (db2, self2)"
    by (cases "Invoice_calculate_totals now2 db1 self1")
  obtain dbl line1 where runl: "InvoiceLine_calculate_totals db line = (dbl, line1)"
    by (cases "InvoiceLine_calculate_totals db line")
  have second: "self2 = self1\<lparr>Invoice.updated_at := Some now2\<rparr>"
    using Invoice_calculate_totals_again_instance [of now2 now1 db self]
    by (simp add: run1 run2)
  have stored: "get_row Invoice.id (invoices db2) (Invoice.id self) = Some self2"
    using Invoice_calculate_totals_stored [of now2 db1 self1]
      Invoice_calculate_totals_id [of now1 db self]
    by (simp add: run1 run2)
  have items: "line_items db2 self2 = line_items db self"
    using line_items_after [of now2 db1 self1] line_items_after [of now1 db self]
    by (simp add: run1 run2)
  have same: "Invoice_calculate_totals now1 db1 self1 = (db1, self1)"
    using Invoice_calculate_totals_again [of now1 db self]
    by (simp add: run1)
  have line: "InvoiceLine_calculate_totals dbl line1 = (dbl, line1)"
    using InvoiceLine_calculate_totals_again [of db line]
    by (simp add: runl)
  from second stored items same line show ?thesis
    by (simp add: run1 run2 runl)
qed


section \<open>Scenario A\<close>

text \<open>
  C7. For a line with quantity 2, unit price 100, discount 10 percent and tax rate 5
  percent, \<^verbatim>\<open>InvoiceLine.calculate_totals\<close> gives line_total = 180.00 and
  tax_amount = 9.00; an invoice whose only stored line is that line, with
  discount_amount = 0 and paid_amount = 0, gets subtotal = 180.00, tax_amount = 9.00 and
  total_amount = 189.00 from \<^verbatim>\<open>Invoice.calculate_totals\<close>.
\<close>

theorem scenario_A:
  assumes line: "quantity line = 2" "unit_price line = 100" "discount_percent line = 10"
      "tax_rate line = 5"
    and run_line: "InvoiceLine_calculate_totals db line = (db1, line1)"
    and single: "line_items db1 invc = [line1]"
    and amounts0: "discount_amount invc = 0" "paid_amount invc = 0"
    and run_inv: "Invoice_calculate_totals now db1 invc = (db2, inv2)"
  shows "line_total line1 = 180 \<and> InvoiceLine.tax_amount line1 = 9
       \<and> subtotal inv2 = 180 \<and> Invoice.tax_amount inv2 = 9 \<and> total_amount inv2 = 189"
proof -
  have l1: "line1 = snd (InvoiceLine_calculate_totals db line)"
    by (simp add: run_line)
  have lt: "line_total line1 = 180" and tx: "InvoiceLine.tax_amount line1 = 9"
    unfolding l1 by (simp_all add: InvoiceLine_calculate_totals_instance line)
  have i2: "inv2 = snd (Invoice_calculate_totals now db1 invc)"
    by (simp add: run_inv)
  have "subtotal inv2 = 180" "Invoice.tax_amount inv2 = 9" "total_amount inv2 = 189"
    unfolding i2 by (simp_all add: Invoice_calculate_totals_instance single amounts0 lt tx)
  with lt tx show ?thesis by simp
qed

theorem scenario_A_witness:
  "quantity ((new_InvoiceLine 1 1 1 ''item'' 1)
      \<lparr>quantity := 2, unit_price := 100, discount_percent := 10, tax_rate := 5\<rparr>) = 2
 \<and> line_items
      (fst (InvoiceLine_calculate_totals
         (empty_database\<lparr>invoices := [new_Invoice 1 1 ''sales'' ''INV-1'' 0 30 1]\<rparr>)
         ((new_InvoiceLine 1 1 1 ''item'' 1)
            \<lparr>quantity := 2, unit_price := 100, discount_percent := 10, tax_rate := 5\<rparr>)))
      (new_Invoice 1 1 ''sales'' ''INV-1'' 0 30 1)
    = [snd (InvoiceLine_calculate_totals
         (empty_database\<lparr>invoices := [new_Invoice 1 1 ''sales'' ''INV-1'' 0 30 1]\<rparr>)
         ((new_InvoiceLine 1 1 1 ''item'' 1)
            \<lparr>quantity := 2, unit_price := 100, discount_percent := 10, tax_rate := 5\<rparr>))]
 \<and> line_total (snd (InvoiceLine_calculate_totals
         (empty_database\<lparr>invoices := [new_Invoice 1 1 ''sales'' ''INV-1'' 0 30 1]\<rparr>)
         ((new_InvoiceLine 1 1 1 ''item'' 1)
            \<lparr>quantity := 2, unit_price := 100, discount_percent := 10, tax_rate := 5\<rparr>))) = 180
 \<and> total_amount (snd (Invoice_calculate_totals (1, 0)
         (fst (InvoiceLine_calculate_totals
            (empty_database\<lparr>invoices := [new_Invoice 1 1 ''sales'' ''INV-1'' 0 30 1]\<rparr>)
            ((new_InvoiceLine 1 1 1 ''item'' 1)
               \<lparr>quantity := 2, unit_price := 100, discount_percent := 10, tax_rate := 5\<rparr>)))
         (new_Invoice 1 1 ''sales'' ''INV-1'' 0 30 1))) = 189"
proof -
  define invc where "invc = new_Invoice 1 1 ''sales'' ''INV-1'' 0 30 1"
  define line where "line = (new_InvoiceLine 1 1 1 ''item'' 1)
      \<lparr>quantity := 2, unit_price := 100, discount_percent := 10, tax_rate := 5\<rparr>"
  define db where "db = empty_database\<lparr>invoices := [invc]\<rparr>"
  define db1 where "db1 = fst (InvoiceLine_calculate_totals db line)"
  define line1 where "line1 = snd (InvoiceLine_calculate_totals db line)"
  define db2 where "db2 = fst (Invoice_calculate_totals (1, 0) db1 invc)"
  define inv2 where "inv2 = snd (Invoice_calculate_totals (1, 0) db1 invc)"
  have fields: "quantity line = 2" "unit_price line = 100" "discount_percent line = 10"
      "tax_rate line = 5"
    by (simp_all add: line_def)
  have run_line: "InvoiceLine_calculate_totals db line = (db1, line1)"
    by (simp add: db1_def line1_def)
  have single: "line_items db1 invc = [line1]"
    by (simp add: db1_def line1_def line_items_def InvoiceLine_calculate_totals_database
        InvoiceLine_calculate_totals_instance upsert_def pk_exists_def db_def empty_database_def
        line_def new_InvoiceLine_def invc_def new_Invoice_def)
  have amounts: "discount_amount invc = 0" "paid_amount invc = 0"
    by (simp_all add: invc_def new_Invoice_def)
  have run_inv: "Invoice_calculate_totals (1, 0) db1 invc = (db2, inv2)"
    by (simp add: db2_def inv2_def)
  from scenario_A [OF fields run_line single amounts run_inv] fields(1) single
  show ?thesis
    by (simp add: invc_def line_def db_def db1_def line1_def db2_def inv2_def)
qed


section \<open>What Invoice.calculate_totals changes\<close>

text \<open>
  C10, as stated: \<^verbatim>\<open>Invoice.calculate_totals\<close> modifies only subtotal, tax_amount,
  total_amount and balance_due. It does not hold: the method ends with
  \<^verbatim>\<open>self.save()\<close>, and \<^verbatim>\<open>updated_at\<close> is declared \<^verbatim>\<open>auto_now=True\<close>, so the save
  sets it. An invoice stored with \<^verbatim>\<open>updated_at\<close> on day 10 and recomputed on day 11
  has \<^verbatim>\<open>updated_at\<close> on day 11, on the instance and in its row.
\<close>

theorem Invoice_calculate_totals_updated_at_counterexample:
  "Invoice.updated_at
     ((new_Invoice 1 1 ''sales'' ''INV-1'' 0 30 1)
        \<lparr>Invoice.created_at := Some (10, 0), Invoice.updated_at := Some (10, 0)\<rparr>)
     = Some (10, 0)
 \<and> Invoice.updated_at
     (snd (Invoice_calculate_totals (11, 0)
        (empty_database\<lparr>invoices :=
           [(new_Invoice 1 1 ''sales'' ''INV-1'' 0 30 1)
              \<lparr>Invoice.created_at := Some (10, 0), Invoice.updated_at := Some (10, 0)\<rparr>]\<rparr>)
        ((new_Invoice 1 1 ''sales'' ''INV-1'' 0 30 1)
           \<lparr>Invoice.created_at := Some (10, 0), Invoice.updated_at := Some (10, 0)\<rparr>)))
     = Some (11, 0)
 \<and> map Invoice.updated_at
     (invoices (fst (Invoice_calculate_totals (11, 0)
        (empty_database\<lparr>invoices :=
           [(new_Invoice 1 1 ''sales'' ''INV-1'' 0 30 1)
              \<lparr>Invoice.created_at := Some (10, 0), Invoice.updated_at := Some (10, 0)\<rparr>]\<rparr>)
        ((new_Invoice 1 1 ''sales'' ''INV-1'' 0 30 1)
           \<lparr>Invoice.created_at := Some (10, 0), Invoice.updated_at := Some (10, 0)\<rparr>))))
     = [Some (11, 0)]"
  by (simp add: Invoice_calculate_totals_instance Invoice_calculate_totals_database
      upsert_def pk_exists_def empty_database_def new_Invoice_def)

text \<open>
  C10, amended. \<^verbatim>\<open>Invoice.calculate_totals\<close> modifies only the fields subtotal,
  tax_amount, total_amount and balance_due and, through its save, the automatic
  timestamps: \<^verbatim>\<open>updated_at\<close> becomes the time of the save, and \<^verbatim>\<open>created_at\<close> too
  when the invoice had no row yet. In particular discount_amount, paid_amount, status,
  currency and exchange_rate are left unchanged, and so are every line item, every other
  table and every other invoice's row. On an invoice with no line items it sets
  subtotal = 0 and tax_amount = 0, so total_amount = - discount_amount and
  balance_due = - discount_amount - paid_amount.
\<close>

theorem Invoice_calculate_totals_frame:
  "(let (db', self') = Invoice_calculate_totals now db self in
      self' = self\<lparr>subtotal := subtotal self',
                    Invoice.tax_amount := Invoice.tax_amount self',
                    total_amount := total_amount self',
                    balance_due := balance_due self',
                    Invoice.created_at := Invoice.created_at self',
                    Invoice.updated_at := Some now\<rparr>
    \<and> Invoice.created_at self' =
        (if pk_exists Invoice.id (invoices db) (Invoice.id self)
         then Invoice.created_at self else Some now)
    \<and> Invoice.updated_at self' = Some now
    \<and> discount_amount self' = discount_amount self
    \<and> paid_amount self' = paid_amount self
    \<and> Invoice.status self' = Invoice.status self
    \<and> Invoice.currency self' = Invoice.currency self
    \<and> Invoice.exchange_rate self' = Invoice.exchange_rate self
    \<and> invoice_lines db' = invoice_lines db
    \<and> db' = db\<lparr>invoices := invoices db'\<rparr>
    \<and> (\<forall>k. k \<noteq> Invoice.id self \<longrightarrow>
          get_row Invoice.id (invoices db') k = get_row Invoice.id (invoices db) k)
    \<and> (line_items db self = [] \<longrightarrow>
          subtotal self' = 0 \<and> Invoice.tax_amount self' = 0
        \<and> total_amount self' = - discount_amount self
        \<and> balance_due self' = - discount_amount self - paid_amount self))"
proof -
  obtain db' self' where run: "Invoice_calculate_totals now db self = (db', self')"
    by (cases "Invoice_calculate_totals now db self")
  have inst: "self' = snd (Invoice_calculate_totals now db self)"
    and dbs: "db' = fst (Invoice_calculate_totals now db self)"
    by (simp_all add: run)
  have only: "self' = self\<lparr>subtotal := subtotal self',
                    Invoice.tax_amount := Invoice.tax_amount self',
                    total_amount := total_amount self',
                    balance_due := balance_due self',
                    Invoice.created_at := Invoice.created_at self',
                    Invoice.updated_at := Some now\<rparr>"
    unfolding inst by (simp add: Invoice_calculate_totals_instance)
  have created: "Invoice.created_at self' =
        (if pk_exists Invoice.id (invoices db) (Invoice.id self)
         then Invoice.created_at self else Some now)"
    unfolding inst by (simp add: Invoice_calculate_totals_instance)
  have kept: "Invoice.updated_at self' = Some now"
      "discount_amount self' = discount_amount self" "paid_amount self' = paid_amount self"
      "Invoice.status self' = Invoice.status self" "Invoice.currency self' = Invoice.currency self"
      "Invoice.exchange_rate self' = Invoice.exchange_rate self"
    unfolding inst by (simp_all add: Invoice_calculate_totals_instance)
  have tables: "invoice_lines db' = invoice_lines db" "db' = db\<lparr>invoices := invoices db'\<rparr>"
    unfolding dbs by (simp_all add: Invoice_calculate_totals_database)
  have others: "\<forall>k. k \<noteq> Invoice.id self \<longrightarrow>
          get_row Invoice.id (invoices db') k = get_row Invoice.id (invoices db) k"
    unfolding dbs
    using get_row_upsert_others [of Invoice.id "snd (Invoice_calculate_totals now db self)" "invoices db"]
    by (simp add: Invoice_calculate_totals_database Invoice_calculate_totals_id)
  have empty: "line_items db self = [] \<longrightarrow>
          subtotal self' = 0 \<and> Invoice.tax_amount self' = 0
        \<and> total_amount self' = - discount_amount self
        \<and> balance_due self' = - discount_amount self - paid_amount self"
    unfolding inst by (simp add: Invoice_calculate_totals_instance)
  from only created kept tables others empty show ?thesis
    unfolding run by (simp only: Let_def prod.case simp_thms)
qed



theorem Invoice_calculate_totals_frame_witness:
  "line_items
     (empty_database\<lparr>invoices :=
        [(new_Invoice 1 1 ''sales'' ''INV-1'' 0 30 1)
           \<lparr>discount_amount := 5, paid_amount := 2,
            Invoice.created_at := Some (10, 0), Invoice.updated_at := Some (10, 0)\<rparr>]\<rparr>)
     ((new_Invoice 1 1 ''sales'' ''INV-1'' 0 30 1)
        \<lparr>discount_amount := 5, paid_amount := 2,
         Invoice.created_at := Some (10, 0), Invoice.updated_at := Some (10, 0)\<rparr>) = []
 \<and> (let (db', self') =
        Invoice_calculate_totals (11, 0)
          (empty_database\<lparr>invoices :=
             [(new_Invoice 1 1 ''sales'' ''INV-1'' 0 30 1)
                \<lparr>discount_amount := 5, paid_amount := 2,
                 Invoice.created_at := Some (10, 0), Invoice.updated_at := Some (10, 0)\<rparr>]\<rparr>)
          ((new_Invoice 1 1 ''sales'' ''INV-1'' 0 30 1)
             \<lparr>discount_amount := 5, paid_amount := 2,
              Invoice.created_at := Some (10, 0), Invoice.updated_at := Some (10, 0)\<rparr>)
      in subtotal self' = 0 \<and> Invoice.tax_amount self' = 0
       \<and> total_amount self' = - 5 \<and> balance_due self' = - 7
       \<and> discount_amount self' = 5 \<and> paid_amount self' = 2
       \<and> Invoice.created_at self' = Some (10, 0)
       \<and> Invoice.updated_at self' = Some (11, 0)
       \<and> get_row Invoice.id (invoices db') 2 = None)"
proof -
  define self where "self = (new_Invoice 1 1 ''sales'' ''INV-1'' 0 30 1)
      \<lparr>discount_amount := 5, paid_amount := 2,
       Invoice.created_at := Some (10, 0), Invoice.updated_at := Some (10, 0)\<rparr>"
  define db where "db = empty_database\<lparr>invoices := [self]\<rparr>"
  obtain db' self' where run: "Invoice_calculate_totals (11, 0) db self = (db', self')"
    by (cases "Invoice_calculate_totals (11, 0) db self")
  have no_lines: "line_items db self = []"
    by (simp add: line_items_def db_def empty_database_def)
  have stored: "pk_exists Invoice.id (invoices db) (Invoice.id self)"
    by (simp add: pk_exists_def db_def)
  have key: "Invoice.id self = 1"
    by (simp add: self_def new_Invoice_def)
  have amounts: "discount_amount self = 5" "paid_amount self = 2"
      "Invoice.created_at self = Some (10, 0)"
    by (simp_all add: self_def)
  have before: "get_row Invoice.id (invoices db) 2 = None"
    by (simp add: get_row_def db_def key)
  have frame: "Invoice.created_at self' =
        (if pk_exists Invoice.id (invoices db) (Invoice.id self)
         then Invoice.created_at self else Some (11, 0))
    \<and> Invoice.updated_at self' = Some (11, 0)
    \<and> discount_amount self' = discount_amount self
    \<and> paid_amount self' = paid_amount self
    \<and> (\<forall>k. k \<noteq> Invoice.id self \<longrightarrow>
          get_row Invoice.id (invoices db') k = get_row Invoice.id (invoices db) k)
    \<and> (line_items db self = [] \<longrightarrow>
          subtotal self' = 0 \<and> Invoice.tax_amount self' = 0
        \<and> total_amount self' = - discount_amount self
        \<and> balance_due self' = - discount_amount self - paid_amount self)"
    using Invoice_calculate_totals_frame [of "(11, 0)" db self]
    unfolding run Let_def prod.case by blast
  from frame have other: "get_row Invoice.id (invoices db') 2 = get_row Invoice.id (invoices db) 2"
    unfolding key by simp
  from frame no_lines stored amounts other before
  have "subtotal self' = 0 \<and> Invoice.tax_amount self' = 0
       \<and> total_amount self' = - 5 \<and> balance_due self' = - 7
       \<and> discount_amount self' = 5 \<and> paid_amount self' = 2
       \<and> Invoice.created_at self' = Some (10, 0)
       \<and> Invoice.updated_at self' = Some (11, 0)
       \<and> get_row Invoice.id (invoices db') 2 = None"
    by simp
  with no_lines run show ?thesis
    unfolding db_def self_def by simp
qed


section \<open>The stored status and the overdue label\<close>

text \<open>
  C9, as stated: the value \<^verbatim>\<open>'overdue'\<close> is never a stored invoice status. It does
  not hold: \<^verbatim>\<open>INVOICE_STATUS\<close>, the choices of the stored \<^verbatim>\<open>status\<close> field, lists
  \<^verbatim>\<open>'overdue'\<close>, and an invoice that carries this status is written to its row with
  it.
\<close>

theorem overdue_is_a_stored_choice_counterexample:
  "''overdue'' \<in> set (map fst INVOICE_STATUS)
 \<and> map Invoice.status
     (invoices (fst (Invoice_calculate_totals (11, 0) empty_database
        ((new_Invoice 1 1 ''sales'' ''INV-1'' 0 30 1)\<lparr>Invoice.status := ''overdue''\<rparr>))))
     = [''overdue'']"
  by (simp add: INVOICE_STATUS_def Invoice_calculate_totals_instance
      Invoice_calculate_totals_database upsert_def pk_exists_def empty_database_def)

text \<open>
  C9, amended. No method of the module assigns the status of an invoice:
  \<^verbatim>\<open>Invoice.calculate_totals\<close>, the only one that saves an invoice, leaves the status
  of the instance as it is, writes that instance to its row and touches no other
  invoice's row, and \<^verbatim>\<open>InvoiceLine.calculate_totals\<close> writes no invoice. Whether an
  invoice is overdue is computed at the read, from its due_date, its status and the
  current date alone. The value \<^verbatim>\<open>'overdue'\<close> remains an admissible stored status.
\<close>

theorem status_not_transitioned:
  "(let (db', self') = Invoice_calculate_totals now db self in
      Invoice.status self' = Invoice.status self
    \<and> get_row Invoice.id (invoices db') (Invoice.id self) = Some self'
    \<and> (\<forall>k. k \<noteq> Invoice.id self \<longrightarrow>
          get_row Invoice.id (invoices db') k = get_row Invoice.id (invoices db) k))
 \<and> (let (db', line') = InvoiceLine_calculate_totals db line in invoices db' = invoices db)
 \<and> (due_date a = due_date b \<and> Invoice.status a = Invoice.status b
      \<and> datetime_date now1 = datetime_date now2
      \<longrightarrow> is_overdue now1 a = is_overdue now2 b)"
proof -
  obtain db' self' where run: "Invoice_calculate_totals now db self = (db', self')"
    by (cases "Invoice_calculate_totals now db self")
  have inst: "self' = snd (Invoice_calculate_totals now db self)"
    and dbs: "db' = fst (Invoice_calculate_totals now db self)"
    by (simp_all add: run)
  have kept: "Invoice.status self' = Invoice.status self"
    unfolding inst by (simp add: Invoice_calculate_totals_instance)
  have stored: "get_row Invoice.id (invoices db') (Invoice.id self) = Some self'"
    unfolding inst dbs by (rule Invoice_calculate_totals_stored)
  have others: "\<forall>k. k \<noteq> Invoice.id self \<longrightarrow>
      get_row Invoice.id (invoices db') k = get_row Invoice.id (invoices db) k"
    unfolding dbs
    using get_row_upsert_others [of Invoice.id "snd (Invoice_calculate_totals now db self)" "invoices db"]
    by (simp add: Invoice_calculate_totals_database Invoice_calculate_totals_id)
  obtain dbl line' where runl: "InvoiceLine_calculate_totals db line = (dbl, line')"
    by (cases "InvoiceLine_calculate_totals db line")
  have "invoices (fst (InvoiceLine_calculate_totals db line)) = invoices db"
    by (simp add: InvoiceLine_calculate_totals_database)
  then have line: "invoices dbl = invoices db"
    by (simp add: runl)
  have read: "due_date a = due_date b \<and> Invoice.status a = Invoice.status b
      \<and> datetime_date now1 = datetime_date now2
      \<longrightarrow> is_overdue now1 a = is_overdue now2 b"
    by (simp add: is_overdue_def)
  from kept stored others line read show ?thesis
    unfolding run runl by (simp only: Let_def prod.case simp_thms)
qed

theorem status_not_transitioned_witness:
  "due_date (new_Invoice 1 1 ''sales'' ''INV-1'' 0 30 1)
     = due_date (new_Invoice 2 1 ''purchase'' ''INV-2'' 7 30 1)
 \<and> Invoice.status (new_Invoice 1 1 ''sales'' ''INV-1'' 0 30 1)
     = Invoice.status (new_Invoice 2 1 ''purchase'' ''INV-2'' 7 30 1)
 \<and> datetime_date (40, 0) = datetime_date (40, 5)
 \<and> is_overdue (40, 0) (new_Invoice 1 1 ''sales'' ''INV-1'' 0 30 1)
 \<and> is_overdue (40, 5) (new_Invoice 2 1 ''purchase'' ''INV-2'' 7 30 1)
 \<and> Invoice.status (snd (Invoice_calculate_totals (40, 0) empty_database
        (new_Invoice 1 1 ''sales'' ''INV-1'' 0 30 1))) = ''draft''"
proof -
  define a where "a = new_Invoice 1 1 ''sales'' ''INV-1'' 0 30 1"
  define b where "b = new_Invoice 2 1 ''purchase'' ''INV-2'' 7 30 1"
  have draft: "Invoice.status a = ''draft''"
    by (simp add: a_def new_Invoice_def)
  have same: "due_date a = due_date b" "Invoice.status a = Invoice.status b"
      "datetime_date (40, 0) = datetime_date (40, 5)"
    by (simp_all add: a_def b_def new_Invoice_def datetime_date_def)
  have first: "is_overdue (40, 0) a"
    by (simp add: is_overdue_def a_def new_Invoice_def datetime_date_def)
  have "Invoice.status (snd (Invoice_calculate_totals (40, 0) empty_database a)) = Invoice.status a
      \<and> (due_date a = due_date b \<and> Invoice.status a = Invoice.status b
          \<and> datetime_date (40, 0) = datetime_date (40, 5)
          \<longrightarrow> is_overdue (40, 0) a = is_overdue (40, 5) b)"
    using status_not_transitioned [where now = "(40, 0)" and db = empty_database and self = a
      and a = a and b = b and ?now1.0 = "(40, 0)" and ?now2.0 = "(40, 5)"]
    unfolding Let_def case_prod_beta by blast
  with same first draft
  have "due_date a = due_date b \<and> Invoice.status a = Invoice.status b
      \<and> datetime_date (40, 0) = datetime_date (40, 5)
      \<and> is_overdue (40, 0) a \<and> is_overdue (40, 5) b
      \<and> Invoice.status (snd (Invoice_calculate_totals (40, 0) empty_database a)) = ''draft''"
    by simp
  then show ?thesis
    unfolding a_def b_def .
qed


section \<open>Journal entries\<close>

text \<open>
  C1, as stated: for every journal entry with status posted, the debits of its lines sum
  to the same amount as the credits, and the cached total_debit and total_credit both
  equal that sum. It does not hold: the module declares the two tables and the accessor
  \<^verbatim>\<open>is_balanced\<close> and nothing else; no method posts an entry, checks its lines or
  recomputes the cached totals. A posted entry with a debit line of 100 and a credit
  line of 90 and the default cached totals (both 0) is a row like any other, and
  \<^verbatim>\<open>is_balanced\<close> is true of it.
\<close>

theorem posted_entry_unbalanced_counterexample:
  "JournalEntry.status
     ((new_JournalEntry 1 1 ''JE-1'' 0 ''general'' ''sale'' 1)\<lparr>JournalEntry.status := ''posted''\<rparr>)
     = ''posted''
 \<and> sum_list (map debit (JournalEntry_lines
       (empty_database
          \<lparr>journal_entries :=
             [(new_JournalEntry 1 1 ''JE-1'' 0 ''general'' ''sale'' 1)
                \<lparr>JournalEntry.status := ''posted''\<rparr>],
           journal_entry_lines :=
             [(new_JournalEntryLine 1 1 1 10)\<lparr>debit := 100\<rparr>,
              (new_JournalEntryLine 2 1 2 20)\<lparr>credit := 90\<rparr>]\<rparr>)
       ((new_JournalEntry 1 1 ''JE-1'' 0 ''general'' ''sale'' 1)
          \<lparr>JournalEntry.status := ''posted''\<rparr>))) = 100
 \<and> sum_list (map credit (JournalEntry_lines
       (empty_database
          \<lparr>journal_entries :=
             [(new_JournalEntry 1 1 ''JE-1'' 0 ''general'' ''sale'' 1)
                \<lparr>JournalEntry.status := ''posted''\<rparr>],
           journal_entry_lines :=
             [(new_JournalEntryLine 1 1 1 10)\<lparr>debit := 100\<rparr>,
              (new_JournalEntryLine 2 1 2 20)\<lparr>credit := 90\<rparr>]\<rparr>)
       ((new_JournalEntry 1 1 ''JE-1'' 0 ''general'' ''sale'' 1)
          \<lparr>JournalEntry.status := ''posted''\<rparr>))) = 90
 \<and> total_debit
     ((new_JournalEntry 1 1 ''JE-1'' 0 ''general'' ''sale'' 1)\<lparr>JournalEntry.status := ''posted''\<rparr>)
     = 0
 \<and> total_credit
     ((new_JournalEntry 1 1 ''JE-1'' 0 ''general'' ''sale'' 1)\<lparr>JournalEntry.status := ''posted''\<rparr>)
     = 0
 \<and> is_balanced
     ((new_JournalEntry 1 1 ''JE-1'' 0 ''general'' ''sale'' 1)\<lparr>JournalEntry.status := ''posted''\<rparr>)"
  by (simp add: JournalEntry_lines_def is_balanced_def empty_database_def new_JournalEntry_def
      new_JournalEntryLine_def)

text \<open>
  C1, amended. \<^verbatim>\<open>is_balanced\<close> is true exactly when the cached total_debit equals the
  cached total_credit, whatever the status and the lines. For an entry whose cached
  totals are the sums of its lines' debits and credits, \<^verbatim>\<open>is_balanced\<close> is true
  exactly when those two sums are equal.
\<close>

theorem is_balanced_cached_totals:
  "(is_balanced self \<longleftrightarrow> total_debit self = total_credit self)
 \<and> (total_debit self = sum_list (map debit (JournalEntry_lines db self))
      \<and> total_credit self = sum_list (map credit (JournalEntry_lines db self))
    \<longrightarrow> (is_balanced self \<longleftrightarrow>
           sum_list (map debit (JournalEntry_lines db self))
             = sum_list (map credit (JournalEntry_lines db self))))"
  by (simp add: is_balanced_def)

theorem is_balanced_cached_totals_witness:
  "total_debit
     ((new_JournalEntry 1 1 ''JE-1'' 0 ''general'' ''sale'' 1)
        \<lparr>JournalEntry.status := ''posted'', total_debit := 100, total_credit := 100\<rparr>)
   = sum_list (map debit (JournalEntry_lines
       (empty_database
          \<lparr>journal_entry_lines :=
             [(new_JournalEntryLine 1 1 1 10)\<lparr>debit := 100\<rparr>,
              (new_JournalEntryLine 2 1 2 20)\<lparr>credit := 100\<rparr>,
              (new_JournalEntryLine 3 2 1 10)\<lparr>debit := 7\<rparr>]\<rparr>)
       ((new_JournalEntry 1 1 ''JE-1'' 0 ''general'' ''sale'' 1)
          \<lparr>JournalEntry.status := ''posted'', total_debit := 100, total_credit := 100\<rparr>)))
 \<and> total_credit
     ((new_JournalEntry 1 1 ''JE-1'' 0 ''general'' ''sale'' 1)
        \<lparr>JournalEntry.status := ''posted'', total_debit := 100, total_credit := 100\<rparr>)
   = sum_list (map credit (JournalEntry_lines
       (empty_database
          \<lparr>journal_entry_lines :=
             [(new_JournalEntryLine 1 1 1 10)\<lparr>debit := 100\<rparr>,
              (new_JournalEntryLine 2 1 2 20)\<lparr>credit := 100\<rparr>,
              (new_JournalEntryLine 3 2 1 10)\<lparr>debit := 7\<rparr>]\<rparr>)
       ((new_JournalEntry 1 1 ''JE-1'' 0 ''general'' ''sale'' 1)
          \<lparr>JournalEntry.status := ''posted'', total_debit := 100, total_credit := 100\<rparr>)))
 \<and> is_balanced
     ((new_JournalEntry 1 1 ''JE-1'' 0 ''general'' ''sale'' 1)
        \<lparr>JournalEntry.status := ''posted'', total_debit := 100, total_credit := 100\<rparr>)
 \<and> sum_list (map debit (JournalEntry_lines
       (empty_database
          \<lparr>journal_entry_lines :=
             [(new_JournalEntryLine 1 1 1 10)\<lparr>debit := 100\<rparr>,
              (new_JournalEntryLine 2 1 2 20)\<lparr>credit := 100\<rparr>,
              (new_JournalEntryLine 3 2 1 10)\<lparr>debit := 7\<rparr>]\<rparr>)
       ((new_JournalEntry 1 1 ''JE-1'' 0 ''general'' ''sale'' 1)
          \<lparr>JournalEntry.status := ''posted'', total_debit := 100, total_credit := 100\<rparr>)))
   = 100"
proof -
  define self where "self = (new_JournalEntry 1 1 ''JE-1'' 0 ''general'' ''sale'' 1)
      \<lparr>JournalEntry.status := ''posted'', total_debit := 100, total_credit := 100\<rparr>"
  define db where "db = empty_database
      \<lparr>journal_entry_lines :=
         [(new_JournalEntryLine 1 1 1 10)\<lparr>debit := 100\<rparr>,
          (new_JournalEntryLine 2 1 2 20)\<lparr>credit := 100\<rparr>,
          (new_JournalEntryLine 3 2 1 10)\<lparr>debit := 7\<rparr>]\<rparr>"
  have debits: "sum_list (map debit (JournalEntry_lines db self)) = 100"
    and credits: "sum_list (map credit (JournalEntry_lines db self)) = 100"
    by (simp_all add: JournalEntry_lines_def db_def self_def empty_database_def
        new_JournalEntry_def new_JournalEntryLine_def)
  have cached: "total_debit self = 100" "total_credit self = 100"
    by (simp_all add: self_def)
  from is_balanced_cached_totals [of self db] debits credits cached
  have "is_balanced self"
    by simp
  with debits credits cached
  have "total_debit self = sum_list (map debit (JournalEntry_lines db self))
      \<and> total_credit self = sum_list (map credit (JournalEntry_lines db self))
      \<and> is_balanced self
      \<and> sum_list (map debit (JournalEntry_lines db self)) = 100"
    by simp
  then show ?thesis
    unfolding self_def db_def .
qed


section \<open>Payment allocations\<close>

text \<open>
  C5, as stated: the amounts allocated from a payment never sum to more than the
  payment's amount, the amounts allocated to an invoice never to more than its
  total_amount, and every operation that creates allocations preserves these bounds,
  failing with OverAllocation otherwise. It does not hold: the module has no allocate
  operation and no such check. An allocation is created by saving a
  \<^verbatim>\<open>PaymentAllocation\<close>, and the save is refused only for a second row with the same
  payment and invoice. With a payment of 100, an invoice of 100 and no allocation yet,
  saving an allocation of 150 succeeds and both sums become 150.
\<close>

theorem over_allocation_counterexample:
  "allocated_sum (Payment_allocations
       (empty_database
          \<lparr>invoices := [(new_Invoice 1 1 ''sales'' ''INV-1'' 0 30 1)\<lparr>total_amount := 100\<rparr>],
           payments := [new_Payment 1 1 ''PAY-1'' 0 ''cash'' 100 1]\<rparr>) 1) = 0
 \<and> amount (new_Payment 1 1 ''PAY-1'' 0 ''cash'' 100 1) = 100
 \<and> total_amount ((new_Invoice 1 1 ''sales'' ''INV-1'' 0 30 1)\<lparr>total_amount := 100\<rparr>) = 100
 \<and> (case PaymentAllocation_save (5, 0)
       (empty_database
          \<lparr>invoices := [(new_Invoice 1 1 ''sales'' ''INV-1'' 0 30 1)\<lparr>total_amount := 100\<rparr>],
           payments := [new_Payment 1 1 ''PAY-1'' 0 ''cash'' 100 1]\<rparr>)
       (new_PaymentAllocation 1 1 1 150) of
       Inl e \<Rightarrow> False
     | Inr (db', self') \<Rightarrow>
         allocated_sum (Payment_allocations db' 1) = 150
       \<and> allocated_sum (Invoice_payment_allocations db' 1) = 150)"
  by (simp add: PaymentAllocation_save_def Let_def pk_exists_def upsert_def empty_database_def
      allocated_sum_def Payment_allocations_def Invoice_payment_allocations_def
      new_Payment_def new_Invoice_def new_PaymentAllocation_def)


text \<open>
  C5, amended. Creating an allocation (saving a \<^verbatim>\<open>PaymentAllocation\<close> with a new key,
  which succeeds when no stored row has the same payment and invoice) adds its
  allocated_amount to the sum allocated from its payment and to the sum allocated to its
  invoice, and changes no other sum; afterwards it is the only allocation of its payment
  to its invoice. So the sum stays within a payment's amount exactly when the
  allocated_amount is at most that amount minus the sum allocated before, and within an
  invoice's total_amount exactly when it is at most that total minus the sum allocated
  before. The code does not check either: the bounds are the caller's to keep.
\<close>

theorem PaymentAllocation_save_sums:
  assumes ok: "PaymentAllocation_save now db self = Inr (db', self')"
    and new: "\<not> pk_exists PaymentAllocation.id (payment_allocations db) (PaymentAllocation.id self)"
  shows "allocated_sum (Payment_allocations db' p)
         = allocated_sum (Payment_allocations db p)
           + (if payment self = p then allocated_amount self else 0)
       \<and> allocated_sum (Invoice_payment_allocations db' i)
         = allocated_sum (Invoice_payment_allocations db i)
           + (if PaymentAllocation.invoice self = i then allocated_amount self else 0)
       \<and> (allocated_sum (Payment_allocations db' (payment self)) \<le> amount pay
            \<longleftrightarrow> allocated_amount self
                \<le> amount pay - allocated_sum (Payment_allocations db (payment self)))
       \<and> (allocated_sum (Invoice_payment_allocations db' (PaymentAllocation.invoice self))
              \<le> total_amount bill
            \<longleftrightarrow> allocated_amount self
                \<le> total_amount bill
                  - allocated_sum (Invoice_payment_allocations db (PaymentAllocation.invoice self)))
       \<and> filter (\<lambda>r. payment r = payment self
                  \<and> PaymentAllocation.invoice r = PaymentAllocation.invoice self)
            (payment_allocations db') = [self']"
proof -
  note created = PaymentAllocation_save_created [OF ok new]
  have rows: "payment_allocations db' = payment_allocations db @ [self']"
    by (subst created(2)) simp
  have fields: "payment self' = payment self"
      "PaymentAllocation.invoice self' = PaymentAllocation.invoice self"
      "allocated_amount self' = allocated_amount self"
    by (simp_all add: created(1))
  have by_payment: "\<And>p. allocated_sum (Payment_allocations db' p)
         = allocated_sum (Payment_allocations db p)
           + (if payment self = p then allocated_amount self else 0)"
    by (simp add: allocated_sum_def Payment_allocations_def rows fields)
  have by_invoice: "\<And>i. allocated_sum (Invoice_payment_allocations db' i)
         = allocated_sum (Invoice_payment_allocations db i)
           + (if PaymentAllocation.invoice self = i then allocated_amount self else 0)"
    by (simp add: allocated_sum_def Invoice_payment_allocations_def rows fields)
  have none: "filter (\<lambda>r. payment r = payment self
        \<and> PaymentAllocation.invoice r = PaymentAllocation.invoice self) (payment_allocations db) = []"
    using created(3) by (auto simp: list_ex_iff filter_empty_conv)
  have only: "filter (\<lambda>r. payment r = payment self
        \<and> PaymentAllocation.invoice r = PaymentAllocation.invoice self)
      (payment_allocations db') = [self']"
    by (simp add: rows none fields)
  have payment_bound: "allocated_sum (Payment_allocations db' (payment self)) \<le> amount pay
      \<longleftrightarrow> allocated_amount self
          \<le> amount pay - allocated_sum (Payment_allocations db (payment self))"
    by (subst by_payment) auto
  have invoice_bound:
    "allocated_sum (Invoice_payment_allocations db' (PaymentAllocation.invoice self))
        \<le> total_amount bill
      \<longleftrightarrow> allocated_amount self
          \<le> total_amount bill
            - allocated_sum (Invoice_payment_allocations db (PaymentAllocation.invoice self))"
    by (subst by_invoice) auto
  from by_payment [of p] by_invoice [of i] payment_bound invoice_bound only
  show ?thesis by blast
qed

theorem PaymentAllocation_save_sums_witness:
  "\<not> pk_exists PaymentAllocation.id
      (payment_allocations
         (empty_database\<lparr>payment_allocations := [new_PaymentAllocation 3 7 9 30]\<rparr>))
      (PaymentAllocation.id (new_PaymentAllocation 4 7 8 60))
 \<and> (case PaymentAllocation_save (5, 0)
         (empty_database\<lparr>payment_allocations := [new_PaymentAllocation 3 7 9 30]\<rparr>)
         (new_PaymentAllocation 4 7 8 60) of
       Inl e \<Rightarrow> False
     | Inr (db', self') \<Rightarrow>
         allocated_sum (Payment_allocations db' 7) = 90
       \<and> allocated_sum (Invoice_payment_allocations db' 8) = 60
       \<and> allocated_sum (Payment_allocations db' 7)
           \<le> amount (new_Payment 7 2 ''PAY-7'' 0 ''cash'' 100 2))"
proof -
  define db where "db = empty_database\<lparr>payment_allocations := [new_PaymentAllocation 3 7 9 30]\<rparr>"
  define self where "self = new_PaymentAllocation 4 7 8 60"
  define pay where "pay = new_Payment 7 2 ''PAY-7'' 0 ''cash'' 100 2"
  have new: "\<not> pk_exists PaymentAllocation.id (payment_allocations db) (PaymentAllocation.id self)"
    by (simp add: pk_exists_def db_def self_def empty_database_def new_PaymentAllocation_def)
  obtain db' self' where ok: "PaymentAllocation_save (5, 0) db self = Inr (db', self')"
    by (simp add: PaymentAllocation_save_def Let_def pk_exists_def db_def self_def
        empty_database_def new_PaymentAllocation_def)
  have before: "allocated_sum (Payment_allocations db 7) = 30"
      "allocated_sum (Invoice_payment_allocations db 8) = 0"
    by (simp_all add: allocated_sum_def Payment_allocations_def Invoice_payment_allocations_def
        db_def empty_database_def new_PaymentAllocation_def)
  have fields: "payment self = 7" "PaymentAllocation.invoice self = 8" "allocated_amount self = 60"
      "amount pay = 100"
    by (simp_all add: self_def pay_def new_PaymentAllocation_def new_Payment_def)
  note sums = PaymentAllocation_save_sums [OF ok new, of 7 8 pay undefined]
  have by_payment: "allocated_sum (Payment_allocations db' 7) = 90"
    using sums [THEN conjunct1] by (simp add: fields(1,3) before(1))
  have by_invoice: "allocated_sum (Invoice_payment_allocations db' 8) = 60"
    using sums [THEN conjunct2, THEN conjunct1] by (simp add: fields(2,3) before(2))
  have bound: "allocated_sum (Payment_allocations db' 7) \<le> amount pay"
    by (simp add: by_payment fields(4))
  from new ok by_payment by_invoice bound show ?thesis
    unfolding db_def self_def pay_def by simp
qed


section \<open>Rounding\<close>






end
